theory Spec2Isabelle
  imports Main "HOL-Library.Multiset" "HOL-Library.Char_ord" "HOL-Library.List_Lexorder"
begin

section \<open>The ShX shell: tokenizer, redirection, completion and dispatch\<close>

text \<open>
  Go strings are byte sequences; they are modelled as \<^typ>\<open>string\<close>, a list of
  8-bit characters. Indexing and slicing in the source count bytes, as \<^const>\<open>length\<close>
  does here.
\<close>

subsection \<open>Characters the source names by literal\<close>

definition backslash :: char where "backslash = CHR 0x5C"
definition squote :: char where "squote = CHR 0x27"
definition dquote :: char where "dquote = CHR 0x22"
definition backtick :: char where "backtick = CHR 0x60"
definition dollar :: char where "dollar = CHR 0x24"
definition newline :: char where "newline = CHR 0x0A"
definition space :: char where "space = CHR 0x20"
definition tab :: char where "tab = CHR 0x09"

subsection \<open>parseCommand\<close>

text \<open>
  The local variables of \<^verbatim>\<open>parseCommand\<close>: the tokens emitted so far, the
  \<^verbatim>\<open>strings.Builder\<close> holding the token being built, and the three flags.
\<close>

record pstate =
  result :: "string list"
  current :: string
  inSingleQuote :: bool
  inDoubleQuote :: bool
  escaped :: bool

definition pinit :: pstate where
  "pinit = \<lparr>result = [], current = [], inSingleQuote = False, inDoubleQuote = False,
            escaped = False\<rparr>"

text \<open>One iteration of the loop over the bytes of the command.\<close>

definition parseStep :: "pstate \<Rightarrow> char \<Rightarrow> pstate" where
  "parseStep s c =
    (if escaped s then
       (let s1 = (if inDoubleQuote s \<and> c \<noteq> dollar \<and> c \<noteq> backtick \<and> c \<noteq> dquote
                     \<and> c \<noteq> backslash \<and> c \<noteq> newline
                  then s\<lparr>current := current s @ [backslash]\<rparr> else s)
        in s1\<lparr>current := current s1 @ [c], escaped := False\<rparr>)
     else if c = backslash then
       (if inSingleQuote s then s\<lparr>current := current s @ [c]\<rparr>
        else s\<lparr>escaped := True\<rparr>)
     else if c = squote then
       (if \<not> inDoubleQuote s then s\<lparr>inSingleQuote := \<not> inSingleQuote s\<rparr>
        else s\<lparr>current := current s @ [c]\<rparr>)
     else if c = dquote then
       (if \<not> inSingleQuote s then s\<lparr>inDoubleQuote := \<not> inDoubleQuote s\<rparr>
        else s\<lparr>current := current s @ [c]\<rparr>)
     else if c = space then
       (if \<not> inSingleQuote s \<and> \<not> inDoubleQuote s then
          (if current s \<noteq> [] then s\<lparr>result := result s @ [current s], current := []\<rparr>
           else s)
        else s\<lparr>current := current s @ [c]\<rparr>)
     else s\<lparr>current := current s @ [c]\<rparr>)"

definition parseFinish :: "pstate \<Rightarrow> string list" where
  "parseFinish s = (if current s \<noteq> [] then result s @ [current s] else result s)"

definition parseCommand :: "string \<Rightarrow> string list" where
  "parseCommand command = parseFinish (foldl parseStep pinit command)"


subsection \<open>processRedirectionOperators\<close>

text \<open>
  The five values \<^verbatim>\<open>processRedirectionOperators\<close> returns; during the loop the
  same five are its local variables.
\<close>

record redirection =
  finalFields :: "string list"
  stdoutFile :: string
  stderrFile :: string
  stdoutAppend :: bool
  stderrAppend :: bool

definition rinit :: redirection where
  "rinit = \<lparr>finalFields = [], stdoutFile = [], stderrFile = [], stdoutAppend = False,
            stderrAppend = False\<rparr>"

text \<open>
  The loop \<^verbatim>\<open>for i := 0; i < len(fields);\<close> over the tokens from index \<open>i\<close> on.
  \<open>None\<close> is the early return of the four \<^verbatim>\<open>i+1 >= len(fields)\<close> branches, which
  are the same in all four cases.
\<close>

fun redirLoop :: "string list \<Rightarrow> redirection \<Rightarrow> redirection option" where
  "redirLoop [] r = Some r"
| "redirLoop (token # rest) r =
    (if token = ''>>'' \<or> token = ''1>>'' then
       (case rest of
          [] \<Rightarrow> None
        | target # rest' \<Rightarrow> redirLoop rest' (r\<lparr>stdoutFile := target, stdoutAppend := True\<rparr>))
     else if token = ''>'' \<or> token = ''1>'' then
       (case rest of
          [] \<Rightarrow> None
        | target # rest' \<Rightarrow> redirLoop rest' (r\<lparr>stdoutFile := target\<rparr>))
     else if token = ''2>'' then
       (case rest of
          [] \<Rightarrow> None
        | target # rest' \<Rightarrow> redirLoop rest' (r\<lparr>stderrFile := target\<rparr>))
     else if token = ''2>>'' then
       (case rest of
          [] \<Rightarrow> None
        | target # rest' \<Rightarrow> redirLoop rest' (r\<lparr>stderrFile := target, stderrAppend := True\<rparr>))
     else redirLoop rest (r\<lparr>finalFields := finalFields r @ [token]\<rparr>))"

subsection \<open>The shell's streams, files and collaborators\<close>

text \<open>What an \<^verbatim>\<open>*os.File\<close> used for output refers to.\<close>

datatype sink = TermOut | TermErr | FileSink string

text \<open>The handlers in the table that \<^verbatim>\<open>main\<close> builds.\<close>

datatype builtin =
  ExitH | EchoH | TypeH | PwdH | CdH | ClearH | LsH | CatH | CpH | MvH | RmH | MkdirH | RmdirH

text \<open>
  A call log: each invocation of a builtin handler with its argument vector, and each
  external process started, with its path, arguments and the two streams wired to it.
\<close>

datatype call = Invoked builtin "string list" | Spawned string "string list" sink sink

text \<open>
  The state the shell acts on: the bytes written to its own standard output and error
  stream, the contents of files, the global variables \<^verbatim>\<open>os.Stdout\<close> and
  \<^verbatim>\<open>os.Stderr\<close>, the call log, and whether a Go run-time panic happened.
\<close>

record world =
  termOut :: string
  termErr :: string
  files :: "string \<Rightarrow> string option"
  osStdout :: sink
  osStderr :: sink
  calls :: "call list"
  panicked :: bool

text \<open>
  What the operating system answers: \<^verbatim>\<open>exec.LookPath\<close> (and the same resolution
  inside \<^verbatim>\<open>exec.Command\<close>), the error text of a failing \<^verbatim>\<open>os.OpenFile\<close> or
  \<^verbatim>\<open>os.Create\<close>, whether \<^verbatim>\<open>cmd.Run\<close> of a started process returns an error,
  the \<^verbatim>\<open>PATH\<close> variable, and \<^verbatim>\<open>os.ReadDir\<close> (entries as name and
  \<^verbatim>\<open>IsDir\<close>; \<open>None\<close> is an error).
\<close>

record env =
  lookPath :: "string \<Rightarrow> string option"
  openError :: "string \<Rightarrow> string option"
  runError :: "string \<Rightarrow> string list \<Rightarrow> bool"
  pathEnv :: string
  readDir :: "string \<Rightarrow> (string \<times> bool) list option"

definition goPanic :: "world \<Rightarrow> world" where
  "goPanic w = w\<lparr>panicked := True\<rparr>"

definition fileContent :: "world \<Rightarrow> string \<Rightarrow> string" where
  "fileContent w p = (case files w p of None \<Rightarrow> [] | Some c \<Rightarrow> c)"

text \<open>Writing bytes to a stream; a file grows at its end.\<close>

definition writeTo :: "sink \<Rightarrow> string \<Rightarrow> world \<Rightarrow> world" where
  "writeTo f bs w =
    (case f of
       TermOut \<Rightarrow> w\<lparr>termOut := termOut w @ bs\<rparr>
     | TermErr \<Rightarrow> w\<lparr>termErr := termErr w @ bs\<rparr>
     | FileSink p \<Rightarrow> w\<lparr>files := (files w)(p \<mapsto> fileContent w p @ bs)\<rparr>)"

definition fprintln :: "sink \<Rightarrow> string \<Rightarrow> world \<Rightarrow> world" where
  "fprintln f msg w = writeTo f (msg @ [newline]) w"

text \<open>\<^verbatim>\<open>fmt.Println\<close> writes to the current value of \<^verbatim>\<open>os.Stdout\<close>.\<close>

definition println :: "string \<Rightarrow> world \<Rightarrow> world" where
  "println msg w = fprintln (osStdout w) msg w"

text \<open>
  \<^verbatim>\<open>openFile\<close>: append mode creates the file or keeps its contents,
  \<^verbatim>\<open>os.Create\<close> creates or truncates it. \<open>Inl\<close> carries the error.
\<close>

definition openFile :: "env \<Rightarrow> string \<Rightarrow> bool \<Rightarrow> world \<Rightarrow> string + (sink \<times> world)" where
  "openFile e fileName appendMode w =
    (case openError e fileName of
       Some err \<Rightarrow> Inl err
     | None \<Rightarrow>
         if appendMode
         then Inr (FileSink fileName, w\<lparr>files := (files w)(fileName \<mapsto> fileContent w fileName)\<rparr>)
         else Inr (FileSink fileName, w\<lparr>files := (files w)(fileName \<mapsto> [])\<rparr>))"

definition processRedirectionOperators :: "string list \<Rightarrow> world \<Rightarrow> redirection \<times> world" where
  "processRedirectionOperators flds w =
    (case redirLoop flds rinit of
       None \<Rightarrow>
         (rinit, fprintln (osStderr w) ''syntax error: no file specified for redirection'' w)
     | Some r \<Rightarrow> (r, w))"


subsection \<open>The builtin tables\<close>

text \<open>The slice \<^verbatim>\<open>builtinCMDs\<close> that completion searches.\<close>

definition builtinCMDs :: "string list" where
  "builtinCMDs = [''exit'', ''echo'', ''type'', ''pwd'', ''cd'', ''clear'', ''ls'', ''cat'',
                  ''cp'', ''mv'', ''rm'', ''mkdir'', ''rmdir'']"

text \<open>The map \<^verbatim>\<open>builtins\<close> of \<^verbatim>\<open>main\<close>, from which commands are dispatched.\<close>

definition builtins :: "string \<Rightarrow> builtin option" where
  "builtins = map_of
     [(''exit'', ExitH), (''echo'', EchoH), (''type'', TypeH), (''pwd'', PwdH), (''cd'', CdH),
      (''clear'', ClearH), (''ls'', LsH), (''cat'', CatH), (''cp'', CpH), (''mv'', MvH),
      (''rm'', RmH), (''mkdir'', MkdirH), (''rmdir'', RmdirH)]"

text \<open>
  The map \<^verbatim>\<open>builtins\<close> local to \<^verbatim>\<open>typeHandler\<close>; a missing key reads as
  \<^verbatim>\<open>false\<close>.
\<close>

definition typeBuiltins :: "string \<Rightarrow> bool" where
  "typeBuiltins cmd =
    (case map_of [(''echo'', True), (''exit'', True), (''type'', True), (''pwd'', True),
                  (''cd'', True)] cmd of
       None \<Rightarrow> False
     | Some b \<Rightarrow> b)"

subsection \<open>Handlers\<close>

text \<open>\<^verbatim>\<open>strings.Join\<close>.\<close>

fun join :: "string list \<Rightarrow> string \<Rightarrow> string" where
  "join [] sep = []"
| "join [x] sep = x"
| "join (x # y # ys) sep = x @ sep @ join (y # ys) sep"

definition echoHandler :: "string list \<Rightarrow> world \<Rightarrow> world" where
  "echoHandler args w =
    (case args of
       [] \<Rightarrow> goPanic w
     | _ # rest \<Rightarrow> println (join rest '' '') w)"

definition typeHandler :: "env \<Rightarrow> string list \<Rightarrow> world \<Rightarrow> world" where
  "typeHandler e args w =
    (if length args < 2 then println ''type: missing argument'' w
     else
       (let cmd = args ! 1 in
        if typeBuiltins cmd then println (cmd @ '' is a shell builtin'') w
        else
          (case lookPath e cmd of
             Some path \<Rightarrow> println (cmd @ '' is '' @ path) w
           | None \<Rightarrow> println (cmd @ '': not found'') w)))"

text \<open>
  Calling a handler. The call is logged; \<^verbatim>\<open>echoHandler\<close> and
  \<^verbatim>\<open>typeHandler\<close> are modelled in full, the bodies of the other handlers (process
  exit, directory change and file manipulation) are not: of those only the call is kept.
\<close>

definition runHandler :: "env \<Rightarrow> builtin \<Rightarrow> string list \<Rightarrow> world \<Rightarrow> world" where
  "runHandler e h args w =
    (let w1 = w\<lparr>calls := calls w @ [Invoked h args]\<rparr>
     in case h of
          EchoH \<Rightarrow> echoHandler args w1
        | TypeH \<Rightarrow> typeHandler e args w1
        | _ \<Rightarrow> w1)"

subsection \<open>Running a builtin with redirection\<close>

text \<open>
  The second half of \<^verbatim>\<open>executeBuiltinWithRedirection\<close>: the standard-error
  redirection and the call of the handler. The deferred function restores
  \<^verbatim>\<open>os.Stderr\<close> when the function returns.
\<close>

definition builtinStderrPart ::
    "env \<Rightarrow> builtin \<Rightarrow> string list \<Rightarrow> string \<Rightarrow> bool \<Rightarrow> sink \<Rightarrow> world \<Rightarrow> world" where
  "builtinStderrPart e handler args errFile errAppend oldStderr w =
    (if errFile \<noteq> [] then
       (case openFile e errFile errAppend w of
          Inl err \<Rightarrow>
            fprintln (osStderr w) (''Error opening file for stderr redirection: '' @ err) w
        | Inr (file, w1) \<Rightarrow>
            (let w2 = runHandler e handler args (w1\<lparr>osStderr := file\<rparr>)
             in w2\<lparr>osStderr := oldStderr\<rparr>))
     else runHandler e handler args w)"

definition executeBuiltinWithRedirection ::
    "env \<Rightarrow> builtin \<Rightarrow> string list \<Rightarrow> string \<Rightarrow> string \<Rightarrow> bool \<Rightarrow> bool \<Rightarrow> world \<Rightarrow> world" where
  "executeBuiltinWithRedirection e handler args outFile errFile outAppend errAppend w =
    (let oldStdout = osStdout w; oldStderr = osStderr w in
     if outFile \<noteq> [] then
       (case openFile e outFile outAppend w of
          Inl err \<Rightarrow>
            fprintln (osStderr w) (''Error opening file for stdout redirection: '' @ err) w
        | Inr (file, w1) \<Rightarrow>
            (let w2 = builtinStderrPart e handler args errFile errAppend oldStderr
                        (w1\<lparr>osStdout := file\<rparr>)
             in w2\<lparr>osStdout := oldStdout\<rparr>))
     else builtinStderrPart e handler args errFile errAppend oldStderr w)"

subsection \<open>Running an external command\<close>

text \<open>
  \<^verbatim>\<open>exec.Command\<close> resolves the name as \<^verbatim>\<open>exec.LookPath\<close> does and
  \<^verbatim>\<open>Run\<close> returns the resolution error without starting anything; a resolved
  executable is started with the streams given.
\<close>

definition executeCommand :: "env \<Rightarrow> string list \<Rightarrow> world \<Rightarrow> world" where
  "executeCommand e flds w =
    (case flds of
       [] \<Rightarrow> goPanic w
     | name # args \<Rightarrow>
         (case lookPath e name of
            None \<Rightarrow> println (name @ '': command not found'') w
          | Some path \<Rightarrow>
              (let w1 = w\<lparr>calls := calls w @ [Spawned path args (osStdout w) (osStderr w)]\<rparr>
               in if runError e path args then println (name @ '': command not found'') w1
                  else w1)))"

definition outputError :: "env \<Rightarrow> string \<Rightarrow> string \<Rightarrow> bool \<Rightarrow> world \<Rightarrow> world" where
  "outputError e cmdName errFile appendMode w =
    (let message = cmdName @ '': command not found'' in
     if errFile \<noteq> [] then
       (case openFile e errFile appendMode w of
          Inl err \<Rightarrow>
            fprintln (osStderr w) (''Error opening file for stderr redirection: '' @ err) w
        | Inr (file, w1) \<Rightarrow> fprintln file message w1)
     else fprintln (osStderr w) message w)"

text \<open>
  The part of \<^verbatim>\<open>executeExternalWithRedirection\<close> after the standard-output
  stream of the command is chosen.
\<close>

definition externalStderrPart ::
    "env \<Rightarrow> string \<Rightarrow> string list \<Rightarrow> sink \<Rightarrow> string \<Rightarrow> bool \<Rightarrow> world \<Rightarrow> world" where
  "externalStderrPart e path args cmdStdout errFile errAppend w =
    (if errFile \<noteq> [] then
       (case openFile e errFile errAppend w of
          Inl err \<Rightarrow>
            fprintln (osStderr w) (''Error opening file for stderr redirection: '' @ err) w
        | Inr (file, w1) \<Rightarrow> w1\<lparr>calls := calls w1 @ [Spawned path args cmdStdout file]\<rparr>)
     else w\<lparr>calls := calls w @ [Spawned path args cmdStdout (osStderr w)]\<rparr>)"

definition executeExternalWithRedirection ::
    "env \<Rightarrow> string list \<Rightarrow> string \<Rightarrow> string \<Rightarrow> bool \<Rightarrow> bool \<Rightarrow> world \<Rightarrow> world" where
  "executeExternalWithRedirection e flds outFile errFile outAppend errAppend w =
    (if outFile = [] \<and> errFile = [] then executeCommand e flds w
     else
       (case flds of
          [] \<Rightarrow> goPanic w
        | name # args \<Rightarrow>
            (case lookPath e name of
               None \<Rightarrow> outputError e name errFile errAppend w
             | Some path \<Rightarrow>
                 if outFile \<noteq> [] then
                   (case openFile e outFile outAppend w of
                      Inl err \<Rightarrow>
                        fprintln (osStderr w)
                          (''Error opening file for stdout redirection: '' @ err) w
                    | Inr (file, w1) \<Rightarrow> externalStderrPart e path args file errFile errAppend w1)
                 else externalStderrPart e path args (osStdout w) errFile errAppend w)))"

subsection \<open>One iteration of main\<close>

text \<open>
  Lines 151 to 180 of \<^verbatim>\<open>main\<close>: from the tokens of the line to the dispatch.
\<close>

definition dispatchFields :: "env \<Rightarrow> string list \<Rightarrow> world \<Rightarrow> world" where
  "dispatchFields e flds w =
    (if flds = [] then w
     else
       (case processRedirectionOperators flds w of
          (r, w1) \<Rightarrow>
            (case finalFields r of
               [] \<Rightarrow> w1
             | name # _ \<Rightarrow>
                 (case builtins name of
                    Some handler \<Rightarrow>
                      executeBuiltinWithRedirection e handler (finalFields r) (stdoutFile r)
                        (stderrFile r) (stdoutAppend r) (stderrAppend r) w1
                  | None \<Rightarrow>
                      executeExternalWithRedirection e (finalFields r) (stdoutFile r)
                        (stderrFile r) (stdoutAppend r) (stderrAppend r) w1))))"

text \<open>
  Lines 146 to 180, on the line as \<^verbatim>\<open>strings.TrimSpace\<close> returned it.
\<close>

definition mainIteration :: "env \<Rightarrow> string \<Rightarrow> world \<Rightarrow> world" where
  "mainIteration e input w = (if input = [] then w else dispatchFields e (parseCommand input) w)"

text \<open>The state in which \<^verbatim>\<open>main\<close> starts: nothing written, no file, no call.\<close>

definition world0 :: world where
  "world0 = \<lparr>termOut = [], termErr = [], files = Map.empty, osStdout = TermOut,
             osStderr = TermErr, calls = [], panicked = False\<rparr>"


subsection \<open>Completion\<close>

text \<open>\<^verbatim>\<open>strings.HasPrefix\<close>, \<^verbatim>\<open>strings.TrimPrefix\<close> and \<^verbatim>\<open>strings.Split\<close>.\<close>

definition hasPrefix :: "string \<Rightarrow> string \<Rightarrow> bool" where
  "hasPrefix s p = (length p \<le> length s \<and> take (length p) s = p)"

definition trimPrefix :: "string \<Rightarrow> string \<Rightarrow> string" where
  "trimPrefix s p = (if hasPrefix s p then drop (length p) s else s)"

fun splitSep :: "string \<Rightarrow> char \<Rightarrow> string list" where
  "splitSep [] sep = [[]]"
| "splitSep (c # cs) sep =
    (if c = sep then [] # splitSep cs sep
     else (case splitSep cs sep of [] \<Rightarrow> [[c]] | h # t \<Rightarrow> (c # h) # t))"

text \<open>
  The loop over the entries of one directory, on the map \<^verbatim>\<open>found\<close> and the slice
  \<^verbatim>\<open>matches\<close>.
\<close>

fun scanFiles ::
    "string \<Rightarrow> (string \<times> bool) list \<Rightarrow> (string \<Rightarrow> bool) \<times> string list
      \<Rightarrow> (string \<Rightarrow> bool) \<times> string list" where
  "scanFiles prefix [] (found, matches) = (found, matches)"
| "scanFiles prefix ((name, isDir) # rest) (found, matches) =
    (if isDir then scanFiles prefix rest (found, matches)
     else if hasPrefix name prefix \<and> name \<noteq> prefix then
       (if \<not> found name then scanFiles prefix rest (found(name := True), matches @ [name])
        else scanFiles prefix rest (found, matches))
     else scanFiles prefix rest (found, matches))"

text \<open>The loop over the directories; a directory that cannot be read is skipped.\<close>

fun scanDirs ::
    "env \<Rightarrow> string \<Rightarrow> string list \<Rightarrow> (string \<Rightarrow> bool) \<times> string list
      \<Rightarrow> (string \<Rightarrow> bool) \<times> string list" where
  "scanDirs e prefix [] acc = acc"
| "scanDirs e prefix (dir # dirs) acc =
    (case readDir e dir of
       None \<Rightarrow> scanDirs e prefix dirs acc
     | Some entries \<Rightarrow> scanDirs e prefix dirs (scanFiles prefix entries acc))"

text \<open>
  The first loop of \<^verbatim>\<open>autocomplete\<close>, over the builtin names. The table is the
  global \<^verbatim>\<open>builtinCMDs\<close>, taken as the parameter \<open>cmds\<close>.
\<close>

definition builtinMatches :: "string list \<Rightarrow> string \<Rightarrow> string list" where
  "builtinMatches cmds prefix = filter (\<lambda>cmd. hasPrefix cmd prefix \<and> cmd \<noteq> prefix) cmds"

text \<open>The directories searched, and the search itself, which appends to \<^verbatim>\<open>matches\<close>.\<close>

definition searchDirs :: "env \<Rightarrow> string list" where
  "searchDirs e = ''.'' # splitSep (pathEnv e) (CHR '':'')"

definition pathMatches :: "env \<Rightarrow> string \<Rightarrow> string list \<Rightarrow> string list" where
  "pathMatches e prefix matches =
    (let dirs = searchDirs e in snd (scanDirs e prefix dirs (\<lambda>_. False, matches)))"

text \<open>
  Lines 278 to 310 of \<^verbatim>\<open>autocomplete\<close>: the value of \<^verbatim>\<open>matches\<close> before it
  is sorted.
\<close>

definition gatherMatches :: "string list \<Rightarrow> env \<Rightarrow> string \<Rightarrow> string list" where
  "gatherMatches cmds e prefix =
    (let matches = builtinMatches cmds prefix in
     if length matches = 0 then pathMatches e prefix matches else matches)"

text \<open>
  The inner loop of \<^verbatim>\<open>longestCommonPrefix\<close>, which drops the last byte of the
  running prefix until \<open>s\<close> starts with it; \<open>None\<close> is its \<^verbatim>\<open>return ""\<close>.
\<close>

function shrinkPrefix :: "string \<Rightarrow> string \<Rightarrow> string option" where
  "shrinkPrefix s prefix =
    (if \<not> hasPrefix s prefix then
       (if prefix = [] then None else shrinkPrefix s (butlast prefix))
     else Some prefix)"
  by pat_completeness auto
termination
  by (relation "measure (\<lambda>(s, prefix). length prefix)") auto

fun lcpLoop :: "string list \<Rightarrow> string \<Rightarrow> string" where
  "lcpLoop [] prefix = prefix"
| "lcpLoop (s # strs) prefix =
    (case shrinkPrefix s prefix of None \<Rightarrow> [] | Some p \<Rightarrow> lcpLoop strs p)"

definition longestCommonPrefix :: "string list \<Rightarrow> string" where
  "longestCommonPrefix strs = (case strs of [] \<Rightarrow> [] | s # rest \<Rightarrow> lcpLoop rest s)"

text \<open>
  \<^verbatim>\<open>autocomplete\<close>; \<^verbatim>\<open>sort.Strings\<close> orders byte-wise, as the order on
  \<^typ>\<open>string\<close> does; a \<^verbatim>\<open>nil\<close> slice is the empty list.
\<close>

definition autocomplete :: "string list \<Rightarrow> env \<Rightarrow> string \<Rightarrow> int \<Rightarrow> string \<times> string list" where
  "autocomplete cmds e prefix tabCount =
    (if prefix = [] then ([], [])
     else
       (let matches = gatherMatches cmds e prefix in
        if length matches = 0 then ([], [])
        else
          (let matches = sort matches in
           if length matches = 1 then (trimPrefix (matches ! 0) prefix, matches)
           else
             (let lcp = longestCommonPrefix matches in
              if length lcp > length prefix then (drop (length prefix) lcp, matches)
              else if tabCount > 1 then ([], matches)
              else ([], [])))))"

subsection \<open>The line reader\<close>

text \<open>
  The local variable \<^verbatim>\<open>input\<close>, the two globals of the completion state, and the
  bytes the reader has written to the terminal.
\<close>

record reader =
  input :: string
  lastTabPrefix :: string
  tabPressCount :: int
  screen :: string

datatype outcome = Continue | Return string | Exit

definition bell :: char where "bell = CHR 0x07"
definition cr :: char where "cr = CHR 0x0D"
definition esc :: char where "esc = CHR 0x1B"

definition emit :: "string \<Rightarrow> reader \<Rightarrow> reader" where
  "emit bs st = st\<lparr>screen := screen st @ bs\<rparr>"

definition printAllMatches :: "string list \<Rightarrow> reader \<Rightarrow> reader" where
  "printAllMatches matches st =
    emit [cr, newline] (emit (join matches ''  '') (emit [cr, newline] st))"

definition printPromptWithInput :: "string \<Rightarrow> reader \<Rightarrow> reader" where
  "printPromptWithInput inp st =
    emit ([cr, esc] @ ''[K'' @ [esc] @ ''[1;32mShX'' @ [esc] @ ''[0m ''
          @ [CHR 0xE2, CHR 0x9E, CHR 0x9C] @ '' '' @ inp) st"

definition resetTab :: "reader \<Rightarrow> reader" where
  "resetTab st = st\<lparr>tabPressCount := 0, lastTabPrefix := []\<rparr>"

text \<open>The case \<^verbatim>\<open>'\t'\<close> of the switch.\<close>

definition tabKey :: "string list \<Rightarrow> env \<Rightarrow> reader \<Rightarrow> reader" where
  "tabKey cmds e st =
    (let prefix = input st in
     if space \<in> set prefix then resetTab st
     else
       (let st1 = (if prefix \<noteq> lastTabPrefix st
                   then st\<lparr>tabPressCount := 0, lastTabPrefix := prefix\<rparr> else st);
            st2 = st1\<lparr>tabPressCount := tabPressCount st1 + 1\<rparr>
        in case autocomplete cmds e prefix (tabPressCount st2) of
             (res, matches) \<Rightarrow>
               if length matches > 1 \<and> tabPressCount st2 > 1 \<and> res = [] then
                 printPromptWithInput (input st2) (printAllMatches matches st2)
               else if res \<noteq> [] then
                 (let inp = input st2 @ res;
                      inp2 = (if length matches = 1 then inp @ '' '' else inp)
                  in resetTab (printPromptWithInput inp2 (st2\<lparr>input := inp2\<rparr>)))
               else emit [bell] st2))"

text \<open>\<^verbatim>\<open>string(rn)\<close>: the UTF-8 encoding of a rune.\<close>

definition utf8 :: "nat \<Rightarrow> string" where
  "utf8 r =
    (if r < 0x80 then [char_of r]
     else if r < 0x800 then [char_of (0xC0 + r div 64), char_of (0x80 + r mod 64)]
     else if (0xD800 \<le> r \<and> r < 0xE000) \<or> 0x10FFFF < r then [CHR 0xEF, CHR 0xBF, CHR 0xBD]
     else if r < 0x10000 then
       [char_of (0xE0 + r div 4096), char_of (0x80 + (r div 64) mod 64),
        char_of (0x80 + r mod 64)]
     else
       [char_of (0xF0 + r div 262144), char_of (0x80 + (r div 4096) mod 64),
        char_of (0x80 + (r div 64) mod 64), char_of (0x80 + r mod 64)])"

text \<open>
  The switch on the rune read, one iteration of the loop of
  \<^verbatim>\<open>readInputWithAutocomplete\<close>. Deleting removes the last byte of the input.
\<close>

definition handleKey :: "string list \<Rightarrow> env \<Rightarrow> nat \<Rightarrow> reader \<Rightarrow> outcome \<times> reader" where
  "handleKey cmds e rn st =
    (if rn = 0x03 then (Exit, st)
     else if rn = 0x0D \<or> rn = 0x0A then (Return (input st), resetTab (emit [cr, newline] st))
     else if rn = 0x7F then
       (let inp = (if length (input st) > 0 then butlast (input st) else input st)
        in (Continue, printPromptWithInput inp (resetTab (st\<lparr>input := inp\<rparr>))))
     else if rn = 0x09 then (Continue, tabKey cmds e st)
     else
       (let inp = input st @ utf8 rn
        in (Continue, printPromptWithInput inp (resetTab (st\<lparr>input := inp\<rparr>)))))"


subsection \<open>Notions used to state the properties\<close>

text \<open>Adding tokens in front of those a tokenizer state has emitted.\<close>

definition addResult :: "string list \<Rightarrow> pstate \<Rightarrow> pstate" where
  "addResult r s = s\<lparr>result := r @ result s\<rparr>"

text \<open>
  The text \<open>u\<close> leaves the tokenizer outside quotes and with no escape pending: what
  follows \<open>u\<close> is unquoted.
\<close>

definition unquotedEnd :: "string \<Rightarrow> bool" where
  "unquotedEnd u = (let s = foldl parseStep pinit u
                    in \<not> inSingleQuote s \<and> \<not> inDoubleQuote s \<and> \<not> escaped s)"


text \<open>
  A byte for which the switch of \<^verbatim>\<open>parseCommand\<close> has no case of its own: any
  byte but the space, the backslash and the two quotes. Tabs, newlines and every other
  whitespace byte are among them.
\<close>

definition ordinaryByte :: "char \<Rightarrow> bool" where
  "ordinaryByte c = (c \<noteq> space \<and> c \<noteq> backslash \<and> c \<noteq> squote \<and> c \<noteq> dquote)"

text \<open>A line with no quote and no backslash.\<close>

definition plainLine :: "string \<Rightarrow> bool" where
  "plainLine xs = (backslash \<notin> set xs \<and> squote \<notin> set xs \<and> dquote \<notin> set xs)"




text \<open>The six operator tokens of the switch in \<^verbatim>\<open>processRedirectionOperators\<close>.\<close>

definition isRedirOp :: "string \<Rightarrow> bool" where
  "isRedirOp t =
    (t = ''>'' \<or> t = ''1>'' \<or> t = ''>>'' \<or> t = ''1>>'' \<or> t = ''2>'' \<or> t = ''2>>'')"

text \<open>What one of the four operator branches assigns.\<close>

definition applyOp :: "string \<Rightarrow> string \<Rightarrow> redirection \<Rightarrow> redirection" where
  "applyOp token target r =
    (if token = ''>>'' \<or> token = ''1>>'' then r\<lparr>stdoutFile := target, stdoutAppend := True\<rparr>
     else if token = ''>'' \<or> token = ''1>'' then r\<lparr>stdoutFile := target\<rparr>
     else if token = ''2>'' then r\<lparr>stderrFile := target\<rparr>
     else r\<lparr>stderrFile := target, stderrAppend := True\<rparr>)"

text \<open>
  The tokens the loop passes over with \<^verbatim>\<open>i += 2\<close>: each operator it meets together
  with the token after it.
\<close>

fun consumedPairs :: "string list \<Rightarrow> (string \<times> string) list" where
  "consumedPairs [] = []"
| "consumedPairs [t] = []"
| "consumedPairs (t # u # rest) =
    (if isRedirOp t then (t, u) # consumedPairs rest else consumedPairs (u # rest))"

definition consumedTokens :: "string list \<Rightarrow> string list" where
  "consumedTokens flds = concat (map (\<lambda>(opr, target). [opr, target]) (consumedPairs flds))"

text \<open>A system with no executable on the search path, no readable directory and no failing open.\<close>

definition envNone :: env where
  "envNone = \<lparr>lookPath = (\<lambda>_. None), openError = (\<lambda>_. None), runError = (\<lambda>_ _. False),
              pathEnv = [], readDir = (\<lambda>_. None)\<rparr>"

text \<open>A system in which one path cannot be opened for writing.\<close>

definition envDenied :: env where
  "envDenied =
     envNone\<lparr>openError := (\<lambda>p. if p = ''/root/err.txt''
                              then Some ''open /root/err.txt: permission denied'' else None)\<rparr>"

text \<open>
  A system whose current directory holds the files \<open>foo\<close> and \<open>foobar\<close> and the directory
  \<open>foodir\<close>, and whose search path is the one directory \<open>/bin\<close>.
\<close>

definition envFoo :: env where
  "envFoo = envNone\<lparr>pathEnv := ''/bin'',
     readDir := (\<lambda>dir. if dir = ''.''
                         then Some [(''foo'', False), (''foobar'', False), (''foodir'', True)]
                       else if dir = ''/bin'' then Some [(''foobar'', False), (''foobaz'', False)]
                       else None)\<rparr>"

text \<open>The reader after the bytes \<open>s\<close> were typed: no completion state, screen not recorded.\<close>

definition typed :: "string \<Rightarrow> reader" where
  "typed s = \<lparr>input = s, lastTabPrefix = [], tabPressCount = 0, screen = []\<rparr>"

text \<open>
  The invariant of the path search: \<^verbatim>\<open>found\<close> holds exactly the names in
  \<^verbatim>\<open>matches\<close>, and no name is there twice.
\<close>

definition scanInv :: "(string \<Rightarrow> bool) \<times> string list \<Rightarrow> bool" where
  "scanInv acc = ((\<forall>n. fst acc n \<longleftrightarrow> n \<in> set (snd acc)) \<and> distinct (snd acc))"

text \<open>
  The names a directory listing contributes: entries that are not directories and whose
  name starts with the prefix without being the prefix.
\<close>

definition fileMatches :: "string \<Rightarrow> (string \<times> bool) list \<Rightarrow> string set" where
  "fileMatches prefix entries =
     {name. (name, False) \<in> set entries \<and> hasPrefix name prefix \<and> name \<noteq> prefix}"

definition dirMatches :: "env \<Rightarrow> string \<Rightarrow> string \<Rightarrow> string set" where
  "dirMatches e prefix dir =
     (case readDir e dir of None \<Rightarrow> {} | Some entries \<Rightarrow> fileMatches prefix entries)"

section \<open>Properties of the tokenizer\<close>

lemmas char_defs =
  backslash_def squote_def dquote_def backtick_def dollar_def newline_def space_def tab_def

lemmas tok_defs = parseCommand_def parseFinish_def parseStep_def pinit_def char_defs

declare shrinkPrefix.simps [simp del]


lemma parseStep_addResult: "parseStep (addResult r s) c = addResult r (parseStep s c)"
  by (simp add: parseStep_def addResult_def Let_def)

lemma foldl_parseStep_addResult:
  "foldl parseStep (addResult r s) xs = addResult r (foldl parseStep s xs)"
  by (induction xs arbitrary: s) (simp_all add: parseStep_addResult)

lemma parseFinish_addResult: "parseFinish (addResult r s) = r @ parseFinish s"
  by (simp add: parseFinish_def addResult_def)

text \<open>
  Outside quotes a run of spaces ends the token being built, if there is one, and changes
  nothing else.
\<close>

lemma spaces_unquoted:
  assumes "\<not> inSingleQuote s" "\<not> inDoubleQuote s" "\<not> escaped s" "0 < n"
  shows "foldl parseStep s (replicate n space) = s\<lparr>result := parseFinish s, current := []\<rparr>"
  using assms
proof (induction n arbitrary: s)
  case 0
  then show ?case by simp
next
  case (Suc n)
  let ?t = "s\<lparr>result := parseFinish s, current := []\<rparr>"
  have step: "parseStep s space = ?t"
    using Suc.prems by (simp add: parseStep_def parseFinish_def char_defs)
  show ?case
  proof (cases "n = 0")
    case True
    then show ?thesis using step by simp
  next
    case False
    have "foldl parseStep ?t (replicate n space) = ?t\<lparr>result := parseFinish ?t, current := []\<rparr>"
      using Suc.IH [of ?t] Suc.prems False by simp
    then show ?thesis using step by (simp add: parseFinish_def)
  qed
qed

lemma parseCommand_split:
  assumes "unquotedEnd u" "0 < n"
  shows "parseCommand (u @ replicate n space @ v) = parseCommand u @ parseCommand v"
proof -
  let ?s = "foldl parseStep pinit u"
  have flags: "\<not> inSingleQuote ?s" "\<not> inDoubleQuote ?s" "\<not> escaped ?s"
    using assms(1) by (simp_all add: unquotedEnd_def Let_def)
  have "foldl parseStep ?s (replicate n space) = ?s\<lparr>result := parseFinish ?s, current := []\<rparr>"
    using spaces_unquoted [OF flags assms(2)] .
  also have "\<dots> = addResult (parseFinish ?s) pinit"
    using flags by (simp add: addResult_def pinit_def)
  finally have "foldl parseStep pinit (u @ replicate n space @ v)
                 = addResult (parseFinish ?s) (foldl parseStep pinit v)"
    by (simp add: foldl_parseStep_addResult)
  then show ?thesis
    by (simp add: parseCommand_def parseFinish_addResult)
qed

lemma parseStep_no_empty: "[] \<notin> set (result s) \<Longrightarrow> [] \<notin> set (result (parseStep s c))"
  by (simp add: parseStep_def Let_def)

lemma foldl_parseStep_no_empty:
  "[] \<notin> set (result s) \<Longrightarrow> [] \<notin> set (result (foldl parseStep s xs))"
  by (induction xs arbitrary: s) (simp_all add: parseStep_no_empty)

lemma parseCommand_no_empty: "[] \<notin> set (parseCommand line)"
  using foldl_parseStep_no_empty [of pinit line]
  by (simp add: parseCommand_def parseFinish_def pinit_def)

text \<open>Only the space byte ever ends a token.\<close>

lemma parseStep_result_nonspace: "c \<noteq> space \<Longrightarrow> result (parseStep s c) = result s"
  by (simp add: parseStep_def Let_def)

text \<open>With no escape pending an ordinary byte is added to the token being built.\<close>

lemma parseStep_ordinary:
  "\<not> escaped s \<Longrightarrow> ordinaryByte c \<Longrightarrow> parseStep s c = s\<lparr>current := current s @ [c]\<rparr>"
  by (simp add: parseStep_def ordinaryByte_def)

lemma splitSep_nonempty: "splitSep xs sep \<noteq> []"
  by (induction xs) (auto split: list.splits)

text \<open>
  On a line with no quote and no backslash the tokenizer is \<^verbatim>\<open>strings.Split\<close> at
  the space byte with the empty pieces dropped.
\<close>

lemma plain_scan:
  "plainLine xs \<Longrightarrow>
     parseFinish (foldl parseStep
        \<lparr>result = r, current = cur, inSingleQuote = False, inDoubleQuote = False,
          escaped = False\<rparr> xs)
     = r @ filter (\<lambda>t. t \<noteq> [])
             (case splitSep xs space of [] \<Rightarrow> [] | h # t \<Rightarrow> (cur @ h) # t)"
proof (induction xs arbitrary: r cur)
  case Nil
  then show ?case by (simp add: parseFinish_def)
next
  case (Cons c cs)
  then have cs: "plainLine cs" and c: "c \<noteq> backslash" "c \<noteq> squote" "c \<noteq> dquote"
    by (auto simp: plainLine_def)
  obtain h t where ht: "splitSep cs space = h # t"
    using splitSep_nonempty [of cs space] by (cases "splitSep cs space") auto
  show ?case
  proof (cases "c = space")
    case True
    show ?thesis
      using True c Cons.IH [OF cs, of "r @ [cur]" "[]"] Cons.IH [OF cs, of r "[]"] ht
      by (simp add: parseStep_def char_defs)
  next
    case False
    show ?thesis
      using False c Cons.IH [OF cs, of r "cur @ [c]"] ht
      by (simp add: parseStep_def)
  qed
qed

lemma parseCommand_plain:
  "plainLine xs \<Longrightarrow> parseCommand xs = filter (\<lambda>t. t \<noteq> []) (splitSep xs space)"
  using plain_scan [of xs "[]" "[]"] splitSep_nonempty [of xs space]
  by (simp add: parseCommand_def pinit_def split: list.splits)








text \<open>
  Claim C5, as the code has it: a run of one or more unquoted space characters (the byte
  0x20 and no other whitespace) is a single token separator. Where the text \<open>u\<close> ends
  outside quotes with no escape pending, the tokens of \<open>u\<close>, \<open>n\<close> spaces, \<open>v\<close> are the
  tokens of \<open>u\<close> followed by the tokens of \<open>v\<close>, whatever \<open>n > 0\<close> is; no line ever yields
  the empty string as a token. No byte other than the space ends a token, in any state;
  with no escape pending, a byte other than the space, the backslash and the quotes (a
  tab, say) is added to the token being built; and on a line with no quote and no
  backslash the tokens are exactly the non-empty pieces between spaces.
\<close>

theorem spaces_separate_tokens:
  "(unquotedEnd u \<and> 0 < n \<longrightarrow>
      parseCommand (u @ replicate n space @ v) = parseCommand u @ parseCommand v)
   \<and> [] \<notin> set (parseCommand line)
   \<and> (c \<noteq> space \<longrightarrow> result (parseStep s c) = result s)
   \<and> (\<not> escaped s \<and> ordinaryByte c \<longrightarrow> parseStep s c = s\<lparr>current := current s @ [c]\<rparr>)
   \<and> (plainLine xs \<longrightarrow> parseCommand xs = filter (\<lambda>t. t \<noteq> []) (splitSep xs space))"
  using parseCommand_split [of u n v] parseCommand_no_empty [of line]
    parseStep_result_nonspace [of c s] parseStep_ordinary [of s c] parseCommand_plain [of xs]
  by blast

theorem spaces_separate_tokens_witness:
  "unquotedEnd ''ls'' \<and> 0 < (3::nat)
   \<and> parseCommand (''ls'' @ replicate 3 space @ ''-l x'') = [''ls'', ''-l'', ''x'']
   \<and> [] \<notin> set (parseCommand ''ls   -l x'')
   \<and> tab \<noteq> space \<and> \<not> escaped pinit \<and> ordinaryByte tab
   \<and> parseStep pinit tab = pinit\<lparr>current := [tab]\<rparr>
   \<and> plainLine (''a'' @ [tab] @ ''b  c'')
   \<and> parseCommand (''a'' @ [tab] @ ''b  c'') = [''a'' @ [tab] @ ''b'', ''c'']"
proof -
  have u: "unquotedEnd ''ls''"
    by (simp add: unquotedEnd_def parseStep_def pinit_def char_defs)
  have t: "tab \<noteq> space" "\<not> escaped pinit" "ordinaryByte tab"
    by (simp_all add: ordinaryByte_def pinit_def char_defs)
  have p: "plainLine (''a'' @ [tab] @ ''b  c'')"
    by (simp add: plainLine_def char_defs)
  have sp: "filter (\<lambda>t. t \<noteq> []) (splitSep (''a'' @ [tab] @ ''b  c'') space)
              = [''a'' @ [tab] @ ''b'', ''c'']"
    by (simp add: char_defs)
  have "parseCommand ''ls'' @ parseCommand ''-l x'' = [''ls'', ''-l'', ''x'']"
    by (simp add: tok_defs)
  then show ?thesis
    using u t p sp
      spaces_separate_tokens [of "''ls''" 3 "''-l x''" "''ls   -l x''" tab pinit
        "''a'' @ [tab] @ ''b  c''"]
    by (simp add: pinit_def)
qed

text \<open>
  Claim C5 as stated, for whitespace in general, fails at a tab: the line \<open>a<TAB>b\<close> is
  one token that contains the tab, not the two tokens \<open>a\<close> and \<open>b\<close>.
\<close>

theorem tab_does_not_separate:
  "parseCommand (''a'' @ [tab] @ ''b'') = [''a'' @ [tab] @ ''b'']
   \<and> parseCommand (''a'' @ [tab] @ ''b'') \<noteq> parseCommand ''a'' @ parseCommand ''b''"
  by (simp add: tok_defs)



section \<open>Properties of redirection extraction\<close>

lemma redirLoop_op:
  "isRedirOp token \<Longrightarrow>
     redirLoop (token # target # rest) r = redirLoop rest (applyOp token target r)"
  by (auto simp: isRedirOp_def applyOp_def)

lemma redirLoop_op_last: "isRedirOp token \<Longrightarrow> redirLoop [token] r = None"
  by (auto simp: isRedirOp_def)

lemma redirLoop_word:
  "\<not> isRedirOp token \<Longrightarrow>
     redirLoop (token # rest) r = redirLoop rest (r\<lparr>finalFields := finalFields r @ [token]\<rparr>)"
  by (simp add: isRedirOp_def)

lemmas redirLoop_unfold = redirLoop.simps(2)

declare redirLoop.simps(2) [simp del]

lemma finalFields_applyOp: "finalFields (applyOp token target r) = finalFields r"
  by (simp add: applyOp_def)

text \<open>The four shapes of a token sequence the loop tells apart.\<close>

lemma redir_cases:
  obtains "flds = []"
  | token where "flds = [token]" "isRedirOp token"
  | token target rest where "flds = token # target # rest" "isRedirOp token"
  | token rest where "flds = token # rest" "\<not> isRedirOp token"
  by (cases flds; cases "tl flds"; cases "isRedirOp (hd flds)") auto

lemma consumedTokens_simps:
  "consumedTokens [] = []"
  "isRedirOp token \<Longrightarrow>
     consumedTokens (token # target # rest) = token # target # consumedTokens rest"
  "\<not> isRedirOp token \<Longrightarrow> consumedTokens (token # rest) = consumedTokens rest"
  by (cases rest; simp add: consumedTokens_def)+

lemma redirLoop_mset:
  "redirLoop flds r0 = Some r \<Longrightarrow>
     mset (finalFields r) + mset (consumedTokens flds) = mset (finalFields r0) + mset flds"
proof (induction flds arbitrary: r0 rule: length_induct)
  case (1 flds)
  show ?case
  proof (cases flds rule: redir_cases)
    case 1
    with "1.prems" show ?thesis by (simp add: consumedTokens_simps)
  next
    case (2 token)
    with "1.prems" show ?thesis by (simp add: redirLoop_op_last)
  next
    case (3 token target rest)
    with "1.prems" have "redirLoop rest (applyOp token target r0) = Some r"
      by (simp add: redirLoop_op)
    with "1.IH" 3 have "mset (finalFields r) + mset (consumedTokens rest)
        = mset (finalFields (applyOp token target r0)) + mset rest"
      by simp
    with 3 show ?thesis by (simp add: consumedTokens_simps finalFields_applyOp)
  next
    case (4 token rest)
    with "1.prems" have "redirLoop rest (r0\<lparr>finalFields := finalFields r0 @ [token]\<rparr>) = Some r"
      by (simp add: redirLoop_word)
    with "1.IH" 4 have "mset (finalFields r) + mset (consumedTokens rest)
        = mset (finalFields (r0\<lparr>finalFields := finalFields r0 @ [token]\<rparr>)) + mset rest"
      by simp
    with 4 show ?thesis by (simp add: consumedTokens_simps)
  qed
qed

text \<open>Every consumed pair starts with one of the six operators.\<close>

lemma consumedPairs_ops: "(opr, target) \<in> set (consumedPairs flds) \<Longrightarrow> isRedirOp opr"
  by (induction flds rule: consumedPairs.induct) (auto split: if_splits)

text \<open>
  An operator after a sequence that is itself accepted finds no target: the early return.
\<close>

lemma redirLoop_snoc_op:
  "isRedirOp opr \<Longrightarrow> redirLoop pre r0 \<noteq> None \<Longrightarrow> redirLoop (pre @ [opr]) r0 = None"
proof (induction pre arbitrary: r0 rule: length_induct)
  case (1 pre)
  show ?case
  proof (cases pre rule: redir_cases)
    case 1
    with "1.prems" show ?thesis by (simp add: redirLoop_op_last)
  next
    case (2 token)
    with "1.prems" show ?thesis by (simp add: redirLoop_op_last)
  next
    case (3 token target rest)
    with "1.prems" have "redirLoop rest (applyOp token target r0) \<noteq> None"
      by (simp add: redirLoop_op)
    with "1.IH" "1.prems"(1) 3 have "redirLoop (rest @ [opr]) (applyOp token target r0) = None"
      by simp
    with 3 show ?thesis by (simp add: redirLoop_op)
  next
    case (4 token rest)
    with "1.prems" have "redirLoop rest (r0\<lparr>finalFields := finalFields r0 @ [token]\<rparr>) \<noteq> None"
      by (simp add: redirLoop_word)
    with "1.IH" "1.prems"(1) 4
    have "redirLoop (rest @ [opr]) (r0\<lparr>finalFields := finalFields r0 @ [token]\<rparr>) = None"
      by simp
    with 4 show ?thesis by (simp add: redirLoop_word)
  qed
qed

text \<open>And the early return happens in no other way.\<close>

lemma redirLoop_None_snoc:
  "redirLoop flds r0 = None \<Longrightarrow>
     \<exists>pre opr. flds = pre @ [opr] \<and> isRedirOp opr \<and> redirLoop pre r0 \<noteq> None"
proof (induction flds arbitrary: r0 rule: length_induct)
  case (1 flds)
  show ?case
  proof (cases flds rule: redir_cases)
    case 1
    with "1.prems" show ?thesis by simp
  next
    case (2 token)
    then have "flds = [] @ [token] \<and> isRedirOp token \<and> redirLoop [] r0 \<noteq> None" by simp
    then show ?thesis by blast
  next
    case (3 token target rest)
    with "1.prems" have "redirLoop rest (applyOp token target r0) = None"
      by (simp add: redirLoop_op)
    with 3 have "\<exists>pre opr. rest = pre @ [opr] \<and> isRedirOp opr
                  \<and> redirLoop pre (applyOp token target r0) \<noteq> None"
      using "1.IH" [rule_format, of rest "applyOp token target r0"] by simp
    then obtain pre opr where
      p: "rest = pre @ [opr]" "isRedirOp opr" "redirLoop pre (applyOp token target r0) \<noteq> None"
      by blast
    with 3 have "flds = (token # target # pre) @ [opr] \<and> isRedirOp opr
                 \<and> redirLoop (token # target # pre) r0 \<noteq> None"
      by (simp add: redirLoop_op)
    then show ?thesis by blast
  next
    case (4 token rest)
    let ?r1 = "r0\<lparr>finalFields := finalFields r0 @ [token]\<rparr>"
    from 4 "1.prems" have "redirLoop rest ?r1 = None"
      by (simp add: redirLoop_word)
    with 4 have "\<exists>pre opr. rest = pre @ [opr] \<and> isRedirOp opr \<and> redirLoop pre ?r1 \<noteq> None"
      using "1.IH" [rule_format, of rest ?r1] by simp
    then obtain pre opr where
      p: "rest = pre @ [opr]" "isRedirOp opr" "redirLoop pre ?r1 \<noteq> None"
      by blast
    with 4 have "flds = (token # pre) @ [opr] \<and> isRedirOp opr \<and> redirLoop (token # pre) r0 \<noteq> None"
      by (simp add: redirLoop_word)
    then show ?thesis by blast
  qed
qed

text \<open>Once set, the append flag of standard output is never cleared by the loop.\<close>

lemma stdoutAppend_sticky:
  "stdoutAppend r0 \<Longrightarrow> redirLoop flds r0 = Some r \<Longrightarrow> stdoutAppend r"
proof (induction flds arbitrary: r0 rule: length_induct)
  case (1 flds)
  show ?case
  proof (cases flds rule: redir_cases)
    case 1
    with "1.prems" show ?thesis by simp
  next
    case (2 token)
    with "1.prems" show ?thesis by (simp add: redirLoop_op_last)
  next
    case (3 token target rest)
    with "1.prems" have "redirLoop rest (applyOp token target r0) = Some r"
      by (simp add: redirLoop_op)
    moreover have "stdoutAppend (applyOp token target r0)"
      using "1.prems"(1) by (simp add: applyOp_def)
    ultimately show ?thesis
      using "1.IH" [rule_format, of rest "applyOp token target r0"] 3 by simp
  next
    case (4 token rest)
    with "1.prems" have "redirLoop rest (r0\<lparr>finalFields := finalFields r0 @ [token]\<rparr>) = Some r"
      by (simp add: redirLoop_word)
    then show ?thesis
      using "1.IH" [rule_format, of rest "r0\<lparr>finalFields := finalFields r0 @ [token]\<rparr>"]
        "1.prems"(1) 4 by simp
  qed
qed

text \<open>
  Claim C1 at \<open>a >> x > y\<close> and \<open>a 2>> x 2> y\<close>: the target is that of the last operator,
  but the append flag set by the earlier operator stays set, so the later truncating
  operator does not yield truncate mode. Run as \<open>echo hi >> x > y\<close> on a file \<open>y\<close> that
  holds \<open>old\<close>, the line is appended to \<open>y\<close>.
\<close>

theorem later_truncate_keeps_append_flag:
  "fst (processRedirectionOperators [''a'', ''>>'', ''x'', ''>'', ''y''] w)
     = \<lparr>finalFields = [''a''], stdoutFile = ''y'', stderrFile = [], stdoutAppend = True,
        stderrAppend = False\<rparr>
   \<and> fst (processRedirectionOperators [''a'', ''2>>'', ''x'', ''2>'', ''y''] w)
     = \<lparr>finalFields = [''a''], stdoutFile = [], stderrFile = ''y'', stdoutAppend = False,
        stderrAppend = True\<rparr>
   \<and> files (dispatchFields envNone [''echo'', ''hi'', ''>>'', ''x'', ''>'', ''y'']
        (world0\<lparr>files := [''y'' \<mapsto> ''old'']\<rparr>)) ''y'' = Some (''oldhi'' @ [newline])"
  by (simp add: processRedirectionOperators_def redirLoop_unfold rinit_def dispatchFields_def
      builtins_def executeBuiltinWithRedirection_def builtinStderrPart_def openFile_def
      envNone_def world0_def runHandler_def echoHandler_def println_def fprintln_def
      writeTo_def fileContent_def)

text \<open>
  Claim C6: when extraction succeeds, the remaining tokens together with the consumed
  operators and their targets are, as a multiset, the original tokens.
\<close>

theorem extraction_preserves_tokens:
  assumes "redirLoop flds rinit = Some r"
  shows "fst (processRedirectionOperators flds w) = r
         \<and> mset (finalFields r) + mset (consumedTokens flds) = mset flds"
  using assms redirLoop_mset [OF assms] by (simp add: processRedirectionOperators_def rinit_def)

theorem extraction_preserves_tokens_witness:
  "redirLoop [''ls'', ''>'', ''out.txt'', ''-l''] rinit
     = Some (rinit\<lparr>finalFields := [''ls'', ''-l''], stdoutFile := ''out.txt''\<rparr>)
   \<and> consumedTokens [''ls'', ''>'', ''out.txt'', ''-l''] = [''>'', ''out.txt'']
   \<and> mset [''ls'', ''-l''] + mset [''>'', ''out.txt''] = mset [''ls'', ''>'', ''out.txt'', ''-l'']"
proof -
  have a: "redirLoop [''ls'', ''>'', ''out.txt'', ''-l''] rinit
     = Some (rinit\<lparr>finalFields := [''ls'', ''-l''], stdoutFile := ''out.txt''\<rparr>)"
    by (simp add: redirLoop_unfold rinit_def)
  have b: "consumedTokens [''ls'', ''>'', ''out.txt'', ''-l''] = [''>'', ''out.txt'']"
    by (simp add: consumedTokens_def isRedirOp_def)
  show ?thesis using a b extraction_preserves_tokens [OF a] by simp
qed

section \<open>Properties of the dispatch\<close>

text \<open>
  Claim C8, as the code has it: a line that ends in an operator token after tokens that
  are themselves accepted (so that the operator is not the target of the operator before
  it) is rejected. The shell writes the syntax error to its error stream and does nothing
  else: no handler is called, no process started, no file opened.
\<close>

theorem missing_target_rejected:
  assumes "isRedirOp opr" "redirLoop pre rinit \<noteq> None" "osStderr w = TermErr"
  shows "dispatchFields e (pre @ [opr]) w =
           w\<lparr>termErr := termErr w @ ''syntax error: no file specified for redirection''
                          @ [newline]\<rparr>"
  using assms(3) redirLoop_snoc_op [OF assms(1,2)]
  by (simp add: dispatchFields_def processRedirectionOperators_def rinit_def fprintln_def
      writeTo_def)

theorem missing_target_rejected_witness:
  "isRedirOp ''>'' \<and> redirLoop [''cmd''] rinit \<noteq> None \<and> osStderr world0 = TermErr
   \<and> dispatchFields envNone [''cmd'', ''>''] world0 =
      world0\<lparr>termErr := ''syntax error: no file specified for redirection'' @ [newline]\<rparr>"
proof -
  have a: "isRedirOp ''>''" by (simp add: isRedirOp_def)
  have b: "redirLoop [''cmd''] rinit \<noteq> None" by (simp add: redirLoop_unfold)
  have c: "osStderr world0 = TermErr" by (simp add: world0_def)
  show ?thesis using a b c missing_target_rejected [OF a b c, of envNone] by (simp add: world0_def)
qed

text \<open>
  Claim C8 as stated fails at \<open>echo > >\<close>: the last token is an operator token with
  nothing after it, yet it is taken as the target of the operator before it. Nothing is
  reported, \<open>echo\<close> is called and the file named \<open>>\<close> is written.
\<close>

theorem operator_as_target_not_rejected:
  "isRedirOp (last [''echo'', ''>'', ''>''])
   \<and> termErr (dispatchFields envNone [''echo'', ''>'', ''>''] world0) = []
   \<and> calls (dispatchFields envNone [''echo'', ''>'', ''>''] world0) = [Invoked EchoH [''echo'']]
   \<and> files (dispatchFields envNone [''echo'', ''>'', ''>''] world0) ''>'' = Some [newline]"
  by (simp add: isRedirOp_def dispatchFields_def processRedirectionOperators_def
      redirLoop_unfold rinit_def builtins_def executeBuiltinWithRedirection_def
      builtinStderrPart_def openFile_def envNone_def world0_def runHandler_def echoHandler_def
      println_def fprintln_def writeTo_def fileContent_def)

text \<open>
  An unknown command: with no redirection \<^verbatim>\<open>executeCommand\<close> prints the message
  with \<^verbatim>\<open>fmt.Println\<close>, on standard output; with a redirection \<^verbatim>\<open>outputError\<close>
  reports it, on the error stream when standard error is not redirected.
\<close>

lemma unknown_plain:
  assumes "lookPath e name = None"
  shows "executeExternalWithRedirection e (name # args) [] [] outAppend errAppend w
           = writeTo (osStdout w) (name @ '': command not found'' @ [newline]) w"
  using assms
  by (simp add: executeExternalWithRedirection_def executeCommand_def println_def fprintln_def)

lemma unknown_redirected:
  assumes "lookPath e name = None" "outFile \<noteq> [] \<or> errFile \<noteq> []"
  shows "executeExternalWithRedirection e (name # args) outFile errFile outAppend errAppend w
           = outputError e name errFile errAppend w"
  using assms by (auto simp add: executeExternalWithRedirection_def)

lemma outputError_plain:
  "outputError e name [] appendMode w
     = writeTo (osStderr w) (name @ '': command not found'' @ [newline]) w"
  by (simp add: outputError_def fprintln_def)

lemma outputError_file:
  assumes "errFile \<noteq> []" "openError e errFile = None"
  shows "\<exists>w1. openFile e errFile appendMode w = Inr (FileSink errFile, w1)
              \<and> outputError e name errFile appendMode w
                  = writeTo (FileSink errFile) (name @ '': command not found'' @ [newline]) w1"
  using assms by (simp add: outputError_def openFile_def fprintln_def)

text \<open>
  Claim C2 at the line \<open>zzzNoSuchCmd\<close>, with no redirection, where the lookup fails: the
  message is written to standard output and nothing to the error stream; no process is
  started.
\<close>

theorem unknown_command_reported_on_stdout:
  "termOut (mainIteration envNone ''zzzNoSuchCmd'' world0)
     = ''zzzNoSuchCmd: command not found'' @ [newline]
   \<and> termErr (mainIteration envNone ''zzzNoSuchCmd'' world0) = []
   \<and> calls (mainIteration envNone ''zzzNoSuchCmd'' world0) = []"
  by (simp add: mainIteration_def tok_defs dispatchFields_def processRedirectionOperators_def
      redirLoop_unfold rinit_def builtins_def executeExternalWithRedirection_def
      executeCommand_def envNone_def world0_def println_def fprintln_def writeTo_def)

text \<open>
  Claim C10: with both targets set, the standard-output target opened and the
  standard-error target failing to open, the handler is not called and the only changes
  are the error message and the standard-output file, created or truncated (kept, in
  append mode).
\<close>

theorem stderr_open_failure_leaves_stdout_file:
  assumes "outFile \<noteq> []" "errFile \<noteq> []" "openError e outFile = None"
    "openError e errFile = Some err" "osStderr w = TermErr"
  shows "executeBuiltinWithRedirection e handler args outFile errFile outAppend errAppend w =
           w\<lparr>termErr := termErr w @ ''Error opening file for stderr redirection: '' @ err
                          @ [newline],
              files := (files w)(outFile \<mapsto> (if outAppend then fileContent w outFile else []))\<rparr>"
  using assms
  by (simp add: executeBuiltinWithRedirection_def builtinStderrPart_def openFile_def
      fprintln_def writeTo_def Let_def)

theorem stderr_open_failure_leaves_stdout_file_witness:
  "''out.txt'' \<noteq> [] \<and> ''/root/err.txt'' \<noteq> [] \<and> openError envDenied ''out.txt'' = None
   \<and> openError envDenied ''/root/err.txt'' = Some ''open /root/err.txt: permission denied''
   \<and> osStderr (world0\<lparr>files := [''out.txt'' \<mapsto> ''old'']\<rparr>) = TermErr
   \<and> calls (executeBuiltinWithRedirection envDenied EchoH [''echo'', ''hi''] ''out.txt''
        ''/root/err.txt'' False False (world0\<lparr>files := [''out.txt'' \<mapsto> ''old'']\<rparr>)) = []
   \<and> files (executeBuiltinWithRedirection envDenied EchoH [''echo'', ''hi''] ''out.txt''
        ''/root/err.txt'' False False (world0\<lparr>files := [''out.txt'' \<mapsto> ''old'']\<rparr>)) ''out.txt''
       = Some []"
proof -
  let ?w = "world0\<lparr>files := [''out.txt'' \<mapsto> ''old'']\<rparr>"
  have a: "''out.txt'' \<noteq> []" and b: "''/root/err.txt'' \<noteq> []" by simp_all
  have c: "openError envDenied ''out.txt'' = None"
    by (simp add: envDenied_def envNone_def)
  have d: "openError envDenied ''/root/err.txt'' = Some ''open /root/err.txt: permission denied''"
    by (simp add: envDenied_def envNone_def)
  have f: "osStderr ?w = TermErr" by (simp add: world0_def)
  show ?thesis
    using c d f
      stderr_open_failure_leaves_stdout_file [OF a b c d f, of EchoH "[''echo'', ''hi'']" False False]
    by (simp add: world0_def)
qed

section \<open>Properties of the builtin tables\<close>

lemma dom_builtins: "dom builtins = set builtinCMDs"
  by (auto simp: builtins_def builtinCMDs_def dom_def split: if_splits)

lemma typeBuiltins_set: "{n. typeBuiltins n} = {''echo'', ''exit'', ''type'', ''pwd'', ''cd''}"
  by (auto simp: typeBuiltins_def split: if_splits)

text \<open>
  Claim C3 at \<open>type ls\<close>: \<open>ls\<close> is dispatched to a builtin handler and is a name that
  completion searches, but the table of \<^verbatim>\<open>typeHandler\<close> does not hold it, so
  \<open>type ls\<close> prints what the search path gives and never that \<open>ls\<close> is a shell builtin.
\<close>

theorem type_table_misses_ls:
  "builtins ''ls'' = Some LsH \<and> ''ls'' \<in> set builtinCMDs \<and> \<not> typeBuiltins ''ls''
   \<and> typeHandler e [''type'', ''ls''] w =
       (case lookPath e ''ls'' of
          Some path \<Rightarrow> println (''ls is '' @ path) w
        | None \<Rightarrow> println ''ls: not found'' w)"
  by (simp add: builtins_def builtinCMDs_def typeBuiltins_def typeHandler_def Let_def
      split: option.splits)

section \<open>Properties of completion\<close>

lemmas comp_defs = autocomplete_def gatherMatches_def builtinMatches_def pathMatches_def
  searchDirs_def hasPrefix_def trimPrefix_def longestCommonPrefix_def shrinkPrefix.simps Let_def

text \<open>What \<^verbatim>\<open>autocomplete\<close> returns as matches is nothing or the sorted candidates.\<close>

lemma autocomplete_matches:
  "snd (autocomplete cmds e prefix n) = []
   \<or> snd (autocomplete cmds e prefix n) = sort (gatherMatches cmds e prefix)"
  by (simp add: autocomplete_def Let_def)

text \<open>
  Claim C4 as stated fails at the prefix \<open>ex\<close>: of \<open>echo\<close> and \<open>exit\<close> only \<open>exit\<close>
  starts with it, so the first Tab press completes the line to \<open>exit\<close> and a space.
\<close>

theorem complete_ex_single_match:
  "autocomplete [''echo'', ''exit''] envNone ''ex'' 1 = (''it'', [''exit''])
   \<and> input (tabKey [''echo'', ''exit''] envNone (typed ''ex'')) = ''exit ''"
  by (simp add: tabKey_def comp_defs char_defs resetTab_def printPromptWithInput_def emit_def
      typed_def)

text \<open>
  Claim C4, as the code has it, with the builtin table \<open>echo\<close>, \<open>exit\<close>. The prefix \<open>e\<close>
  has the two matches and cannot be extended: the first Tab press returns nothing and the
  reader rings the bell, the second returns both candidates and the reader prints them
  and redraws the line. The prefix \<open>ex\<close> has the single match \<open>exit\<close> and the prefix
  \<open>ech\<close> the single match \<open>echo\<close>: the suffix is inserted with a space after it.
\<close>

theorem completion_echo_exit:
  "autocomplete [''echo'', ''exit''] e ''e'' 1 = ([], [])
   \<and> tabKey [''echo'', ''exit''] e (typed ''e'')
       = \<lparr>input = ''e'', lastTabPrefix = ''e'', tabPressCount = 1, screen = [bell]\<rparr>
   \<and> autocomplete [''echo'', ''exit''] e ''e'' 2 = ([], [''echo'', ''exit''])
   \<and> tabKey [''echo'', ''exit''] e (tabKey [''echo'', ''exit''] e (typed ''e''))
       = printPromptWithInput ''e'' (printAllMatches [''echo'', ''exit'']
           \<lparr>input = ''e'', lastTabPrefix = ''e'', tabPressCount = 2, screen = [bell]\<rparr>)
   \<and> autocomplete [''echo'', ''exit''] e ''ex'' 1 = (''it'', [''exit''])
   \<and> input (tabKey [''echo'', ''exit''] e (typed ''ex'')) = ''exit ''
   \<and> autocomplete [''echo'', ''exit''] e ''ech'' 1 = (''o'', [''echo''])
   \<and> input (tabKey [''echo'', ''exit''] e (typed ''ech'')) = ''echo ''"
  by (simp add: tabKey_def comp_defs char_defs resetTab_def printPromptWithInput_def emit_def
      typed_def printAllMatches_def)

lemma fileMatches_Nil: "fileMatches prefix [] = {}"
  by (simp add: fileMatches_def)

lemma fileMatches_Cons:
  "fileMatches prefix ((name, isDir) # rest) =
     (if \<not> isDir \<and> hasPrefix name prefix \<and> name \<noteq> prefix then {name} else {})
     \<union> fileMatches prefix rest"
  by (auto simp: fileMatches_def)

lemma scanFiles_correct:
  "scanInv (found, matches) \<Longrightarrow>
     scanInv (scanFiles prefix entries (found, matches))
     \<and> set (snd (scanFiles prefix entries (found, matches)))
         = set matches \<union> fileMatches prefix entries"
proof (induction prefix entries "(found, matches)" arbitrary: found matches rule: scanFiles.induct)
  case (1 prefix found matches)
  then show ?case by (simp add: fileMatches_Nil)
next
  case (2 prefix name isDir rest found matches)
  show ?case
  proof (cases "\<not> isDir \<and> hasPrefix name prefix \<and> name \<noteq> prefix \<and> \<not> found name")
    case True
    have inv: "scanInv (found(name := True), matches @ [name])"
      using "2.prems" True by (auto simp: scanInv_def)
    show ?thesis
      using "2.hyps"(2) [OF _ _ _ inv] True
      by (auto simp: fileMatches_Cons)
  next
    case False
    have "found name \<Longrightarrow> name \<in> set matches"
      using "2.prems" by (simp add: scanInv_def)
    then show ?thesis
      using False "2.hyps"(1,3,4) "2.prems"
      by (auto simp: fileMatches_Cons)
  qed
qed

lemma scanDirs_correct:
  "scanInv acc \<Longrightarrow>
     scanInv (scanDirs e prefix dirs acc)
     \<and> set (snd (scanDirs e prefix dirs acc))
         = set (snd acc) \<union> (\<Union>dir \<in> set dirs. dirMatches e prefix dir)"
proof (induction dirs arbitrary: acc)
  case Nil
  then show ?case by simp
next
  case (Cons dir dirs)
  show ?case
  proof (cases "readDir e dir")
    case None
    then show ?thesis using Cons.IH [OF Cons.prems] by (simp add: dirMatches_def)
  next
    case (Some entries)
    obtain found matches where acc: "acc = (found, matches)" by (cases acc)
    have step: "scanInv (scanFiles prefix entries acc)"
      "set (snd (scanFiles prefix entries acc)) = set (snd acc) \<union> fileMatches prefix entries"
      using scanFiles_correct [of found matches prefix entries] Cons.prems acc by simp_all
    show ?thesis
      using Cons.IH [OF step(1)] step(2) Some by (auto simp: dirMatches_def)
  qed
qed

lemma pathMatches_correct:
  "distinct (pathMatches e prefix [])
   \<and> set (pathMatches e prefix []) = (\<Union>dir \<in> set (searchDirs e). dirMatches e prefix dir)"
  using scanDirs_correct [of "(\<lambda>_. False, [])" e prefix "searchDirs e"]
  by (simp add: pathMatches_def scanInv_def)

text \<open>
  Claim C7, as the code has it. The builtin candidates are the names of the table that
  start with the prefix and are not the prefix. When there is one, the candidates are
  these alone, whatever the directories hold. When there is none, the candidates are,
  each once, the names of the entries of the current directory and of the readable
  directories of the search path that are not directories, start with the prefix and are
  not the prefix itself.
\<close>

theorem gatherMatches_candidates:
  "set (builtinMatches cmds prefix) = {cmd \<in> set cmds. hasPrefix cmd prefix \<and> cmd \<noteq> prefix}
   \<and> (builtinMatches cmds prefix \<noteq> [] \<longrightarrow>
        gatherMatches cmds e prefix = builtinMatches cmds prefix)
   \<and> (builtinMatches cmds prefix = [] \<longrightarrow>
        distinct (gatherMatches cmds e prefix)
        \<and> set (gatherMatches cmds e prefix)
            = (\<Union>dir \<in> set (searchDirs e). dirMatches e prefix dir))"
  using pathMatches_correct [of e prefix]
  by (simp add: gatherMatches_def builtinMatches_def)

theorem gatherMatches_candidates_witness:
  "builtinMatches builtinCMDs ''c'' \<noteq> []
   \<and> gatherMatches builtinCMDs envFoo ''c'' = [''cd'', ''clear'', ''cat'', ''cp'']
   \<and> builtinMatches builtinCMDs ''foo'' = []
   \<and> distinct (gatherMatches builtinCMDs envFoo ''foo'')
   \<and> set (gatherMatches builtinCMDs envFoo ''foo'') = {''foobar'', ''foobaz''}"
proof -
  have a: "builtinMatches builtinCMDs ''c'' = [''cd'', ''clear'', ''cat'', ''cp'']"
    by (simp add: builtinMatches_def builtinCMDs_def hasPrefix_def)
  have b: "builtinMatches builtinCMDs ''foo'' = []"
    by (simp add: builtinMatches_def builtinCMDs_def hasPrefix_def)
  have dirs: "searchDirs envFoo = [''.'', ''/bin'']"
    by (simp add: searchDirs_def envFoo_def envNone_def)
  have d1: "dirMatches envFoo ''foo'' ''.'' = {''foobar''}"
    by (auto simp: dirMatches_def fileMatches_def envFoo_def envNone_def hasPrefix_def)
  have d2: "dirMatches envFoo ''foo'' ''/bin'' = {''foobar'', ''foobaz''}"
    by (auto simp: dirMatches_def fileMatches_def envFoo_def envNone_def hasPrefix_def)
  show ?thesis
    using a b gatherMatches_candidates [of builtinCMDs "''c''" envFoo]
      gatherMatches_candidates [of builtinCMDs "''foo''" envFoo]
    by (auto simp: dirs d1 d2)
qed

text \<open>
  Claim C7 as stated, with every file that starts with the prefix collected, fails where
  a file is named as the prefix: the current directory holds the file \<open>foo\<close>, no builtin
  starts with \<open>foo\<close>, and the candidates for \<open>foo\<close> do not hold it.
\<close>

theorem path_search_skips_exact_name:
  "readDir envFoo ''.'' = Some [(''foo'', False), (''foobar'', False), (''foodir'', True)]
   \<and> hasPrefix ''foo'' ''foo''
   \<and> builtinMatches builtinCMDs ''foo'' = []
   \<and> gatherMatches builtinCMDs envFoo ''foo'' = [''foobar'', ''foobaz'']"
  by (simp add: envFoo_def envNone_def comp_defs builtinCMDs_def)

end
